theory Spec2Isabelle
  imports Complex_Main
begin

section \<open>Common data\<close>

text \<open>
  The pipeline is Python over numpy and pandas. Numbers are modelled as \<open>real\<close>,
  integers as \<open>int\<close>, and a JSON object of the configuration as a map, read with the
  default of the source's \<^verbatim>\<open>dict.get(key, default)\<close>. Where the Scoring Engine
  normalizes a column and carries the normalized scores on, the values are float64 cells:
  NaN, the two infinities and overflow to them are modelled there, with the finite
  results computed exactly (floating-point rounding is outside the model throughout).
\<close>

definition dict_get :: "('k \<rightharpoonup> 'v) \<Rightarrow> 'k \<Rightarrow> 'v \<Rightarrow> 'v" where
  "dict_get d k dflt = (case d k of None \<Rightarrow> dflt | Some v \<Rightarrow> v)"

datatype error = ZeroDivisionError | KeyError string | AttributeError string | ValueError string

section \<open>Scoring Engine: pipeline/scoring.py\<close>

subsection \<open>Numeric helpers\<close>

definition clamp :: "real \<Rightarrow> real \<Rightarrow> real \<Rightarrow> real" where
  "clamp val minimum maximum = max minimum (min val maximum)"

text \<open>
  An input cell of \<^verbatim>\<open>normalize_to_ten\<close> is a float64: a finite number, NaN or
  one of the infinities. \<^verbatim>\<open>np.nan_to_num(arr, nan=0.0, posinf=0.0, neginf=0.0)\<close>
  sends the three non-finite values to 0.
\<close>

datatype float64 = Finite real | NaN | PosInf | NegInf

fun nan_to_num :: "float64 \<Rightarrow> real" where
  "nan_to_num (Finite x) = x"
| "nan_to_num NaN = 0"
| "nan_to_num PosInf = 0"
| "nan_to_num NegInf = 0"

text \<open>
  Arithmetic on float64 cells. An exact result whose magnitude reaches
  \<open>2 ^ 1024 - 2 ^ 970\<close>, half a unit in the last place above the largest float,
  rounds to an infinity; the operations on NaN and the infinities are IEEE 754's
  (the sign of a zero is not modelled).
\<close>

definition float_overflow :: real where
  "float_overflow = 2 ^ 1024 - 2 ^ 970"

definition overflow :: "real \<Rightarrow> float64" where
  "overflow x =
     (if x \<ge> float_overflow then PosInf
      else if x \<le> - float_overflow then NegInf
      else Finite x)"

fun fneg :: "float64 \<Rightarrow> float64" where
  "fneg (Finite a) = Finite (- a)"
| "fneg NaN = NaN"
| "fneg PosInf = NegInf"
| "fneg NegInf = PosInf"

fun fadd :: "float64 \<Rightarrow> float64 \<Rightarrow> float64" where
  "fadd (Finite a) (Finite b) = overflow (a + b)"
| "fadd NaN y = NaN"
| "fadd x NaN = NaN"
| "fadd PosInf NegInf = NaN"
| "fadd NegInf PosInf = NaN"
| "fadd PosInf y = PosInf"
| "fadd NegInf y = NegInf"
| "fadd (Finite a) PosInf = PosInf"
| "fadd (Finite a) NegInf = NegInf"

definition fsub :: "float64 \<Rightarrow> float64 \<Rightarrow> float64" where
  "fsub x y = fadd x (fneg y)"

fun fmul :: "float64 \<Rightarrow> float64 \<Rightarrow> float64" where
  "fmul (Finite a) (Finite b) = overflow (a * b)"
| "fmul NaN y = NaN"
| "fmul x NaN = NaN"
| "fmul PosInf (Finite b) = (if b = 0 then NaN else if b > 0 then PosInf else NegInf)"
| "fmul NegInf (Finite b) = (if b = 0 then NaN else if b > 0 then NegInf else PosInf)"
| "fmul (Finite a) PosInf = (if a = 0 then NaN else if a > 0 then PosInf else NegInf)"
| "fmul (Finite a) NegInf = (if a = 0 then NaN else if a > 0 then NegInf else PosInf)"
| "fmul PosInf PosInf = PosInf"
| "fmul PosInf NegInf = NegInf"
| "fmul NegInf PosInf = NegInf"
| "fmul NegInf NegInf = PosInf"

fun fdiv :: "float64 \<Rightarrow> float64 \<Rightarrow> float64" where
  "fdiv (Finite a) (Finite b) =
     (if b = 0 then (if a = 0 then NaN else if a > 0 then PosInf else NegInf)
      else overflow (a / b))"
| "fdiv NaN y = NaN"
| "fdiv x NaN = NaN"
| "fdiv (Finite a) PosInf = Finite 0"
| "fdiv (Finite a) NegInf = Finite 0"
| "fdiv PosInf (Finite b) = (if b \<ge> 0 then PosInf else NegInf)"
| "fdiv NegInf (Finite b) = (if b \<ge> 0 then NegInf else PosInf)"
| "fdiv PosInf PosInf = NaN"
| "fdiv PosInf NegInf = NaN"
| "fdiv NegInf PosInf = NaN"
| "fdiv NegInf NegInf = NaN"

text \<open>
  \<^verbatim>\<open>np.isclose(a, b)\<close> on two finite floats, with numpy's defaults \<open>rtol = 1e-05\<close>
  and \<open>atol = 1e-08\<close>: \<^verbatim>\<open>abs(a - b) <= atol + rtol * abs(b)\<close>, false when the
  difference overflows.
\<close>

definition isclose :: "real \<Rightarrow> real \<Rightarrow> bool" where
  "isclose a b =
     (case fsub (Finite a) (Finite b) of
        Finite d \<Rightarrow> \<bar>d\<bar> \<le> 1 / 10 ^ 8 + (1 / 10 ^ 5) * \<bar>b\<bar>
      | _ \<Rightarrow> False)"

text \<open>
  \<^verbatim>\<open>np.clip(x, lo, hi)\<close>, which is \<open>minimum(maximum(x, lo), hi)\<close>: on a real, and
  on a float64 cell, where NaN stays NaN.
\<close>

definition clip :: "real \<Rightarrow> real \<Rightarrow> real \<Rightarrow> real" where
  "clip x lo hi = min (max x lo) hi"

fun fclip :: "float64 \<Rightarrow> real \<Rightarrow> real \<Rightarrow> float64" where
  "fclip (Finite x) lo hi = Finite (clip x lo hi)"
| "fclip NaN lo hi = NaN"
| "fclip PosInf lo hi = Finite hi"
| "fclip NegInf lo hi = Finite (min lo hi)"

text \<open>
  \<^verbatim>\<open>normalize_to_ten\<close>. After \<^verbatim>\<open>nan_to_num\<close> every element of \<open>arr\<close> is finite;
  \<^verbatim>\<open>arr - vmin\<close> and \<^verbatim>\<open>vmax - vmin\<close> can overflow to \<open>+inf\<close>, and
  \<open>inf / inf\<close> is NaN, which \<^verbatim>\<open>np.clip\<close> keeps.
\<close>

definition normalize_to_ten :: "float64 list \<Rightarrow> bool \<Rightarrow> float64 list" where
  "normalize_to_ten vals invert =
     (let arr = map nan_to_num vals in
      if length arr = 0 then []
      else
        let vmax = Max (set arr); vmin = Min (set arr) in
        if isclose vmax vmin then map (\<lambda>_. Finite 5) arr
        else
          map (\<lambda>x.
                let normalized =
                      fdiv (fsub (Finite x) (Finite vmin)) (fsub (Finite vmax) (Finite vmin));
                    normalized = (if invert then fsub (Finite 1) normalized else normalized)
                in fclip (fmul normalized (Finite 10)) 0 10) arr)"

text \<open>
  \<^verbatim>\<open>np.round(x, decimals)\<close> rounds half to even: \<open>rint\<close> is the rounding of
  \<^verbatim>\<open>np.rint\<close> on a real, and \<open>np_round\<close> scales by the power of ten.
\<close>

definition rint :: "real \<Rightarrow> int" where
  "rint x =
     (let f = \<lfloor>x\<rfloor>; d = x - of_int f in
      if d < 1 / 2 then f
      else if d > 1 / 2 then f + 1
      else if even f then f else f + 1)"

definition np_round :: "real \<Rightarrow> nat \<Rightarrow> real" where
  "np_round x decimals = of_int (rint (x * 10 ^ decimals)) / 10 ^ decimals"

text \<open>
  The same on a float64 cell: numpy multiplies by the power of ten, applies
  \<^verbatim>\<open>rint\<close> and divides again, so NaN and the infinities pass through.
\<close>

fun frint :: "float64 \<Rightarrow> float64" where
  "frint (Finite x) = Finite (of_int (rint x))"
| "frint NaN = NaN"
| "frint PosInf = PosInf"
| "frint NegInf = NegInf"

definition np_round_float :: "float64 \<Rightarrow> nat \<Rightarrow> float64" where
  "np_round_float v decimals =
     fdiv (frint (fmul v (Finite (10 ^ decimals)))) (Finite (10 ^ decimals))"

subsection \<open>Configuration\<close>

record config =
  weights :: "string \<rightharpoonup> real"
  thresholds :: "string \<rightharpoonup> real"
  fallback_fields :: "string \<rightharpoonup> string list"
  recommendation_rules :: "string \<rightharpoonup> (string \<rightharpoonup> real)"
  population_scale :: real

subsection \<open>The rules of \<^verbatim>\<open>compute_scores\<close> and \<^verbatim>\<open>recommend_solution\<close>\<close>

text \<open>The nested function \<^verbatim>\<open>categorize\<close>, with the two thresholds it closes over.\<close>

definition categorize :: "(string \<rightharpoonup> real) \<Rightarrow> real \<Rightarrow> string" where
  "categorize thresholds_cfg val =
     (let high = dict_get thresholds_cfg ''high_priority'' 7;
          medium = dict_get thresholds_cfg ''medium_priority'' 5
      in if val \<ge> high then ''High''
         else if val \<ge> medium then ''Medium''
         else ''Low'')"

text \<open>
  \<^verbatim>\<open>categorize\<close> on a float64 composite: every comparison with NaN is false, so
  a NaN composite is "Low"; \<open>+inf\<close> is at least every threshold and \<open>-inf\<close> below.
\<close>

fun categorize_float :: "(string \<rightharpoonup> real) \<Rightarrow> float64 \<Rightarrow> string" where
  "categorize_float thresholds_cfg (Finite val) = categorize thresholds_cfg val"
| "categorize_float thresholds_cfg NaN = ''Low''"
| "categorize_float thresholds_cfg PosInf = ''High''"
| "categorize_float thresholds_cfg NegInf = ''Low''"

definition recommend_solution ::
  "(string \<rightharpoonup> (string \<rightharpoonup> real)) \<Rightarrow> real \<Rightarrow> real \<Rightarrow> real \<Rightarrow> string" where
  "recommend_solution rules distance_km population_index economic_score =
     (let road_density_score = clamp (economic_score / 10) 0 1;
          grid_rule = dict_get rules ''grid_extension'' Map.empty
      in
      if distance_km \<le> dict_get grid_rule ''max_distance_km'' 5
         \<and> population_index \<ge> dict_get grid_rule ''min_population_index'' 0.6
      then ''grid_extension''
      else
        let hybrid_rule = dict_get rules ''mini_grid_hybrid'' Map.empty in
        if distance_km \<le> dict_get hybrid_rule ''max_distance_km'' 15
           \<and> population_index \<ge> dict_get hybrid_rule ''min_population_index'' 0.3
           \<and> road_density_score \<ge> dict_get hybrid_rule ''min_road_density'' 0.5
        then ''mini_grid_hybrid''
        else
          let standalone_rule = dict_get rules ''standalone_solar'' Map.empty in
          if distance_km \<ge> dict_get standalone_rule ''min_distance_km'' 25
             \<and> population_index \<le> dict_get standalone_rule ''max_population_index'' 0.2
          then ''standalone_solar''
          else ''mini_grid_solar'')"

text \<open>
  \<^verbatim>\<open>compute_scores\<close> passes \<^verbatim>\<open>recommend_solution\<close> an element of the
  normalized economic column, a float64 cell. The function uses it only in
  \<^verbatim>\<open>clamp(economic_score / 10.0, 0.0, 1.0)\<close>, which is
  \<^verbatim>\<open>max(0.0, min(economic_score / 10.0, 1.0))\<close>: Python's \<^verbatim>\<open>min(nan, 1.0)\<close> is
  \<open>nan\<close> and \<^verbatim>\<open>max(0.0, nan)\<close> is \<open>0.0\<close>, so NaN and \<open>-inf\<close> give the road
  density 0.0, as the score 0 does, and \<open>+inf\<close> gives 1.0, as the score 10 does.
\<close>

fun economic_score_of :: "float64 \<Rightarrow> real" where
  "economic_score_of (Finite e) = e"
| "economic_score_of NaN = 0"
| "economic_score_of PosInf = 10"
| "economic_score_of NegInf = 0"

text \<open>
  The nested function \<^verbatim>\<open>estimate_cost\<close>; \<^verbatim>\<open>solution.startswith("mini_grid")\<close>
  compares the first nine characters.
\<close>

definition startswith :: "string \<Rightarrow> string \<Rightarrow> bool" where
  "startswith s p = (take (length p) s = p)"

definition estimate_cost :: "string \<Rightarrow> real \<Rightarrow> real \<Rightarrow> real" where
  "estimate_cost solution population distance =
     (let households = population * 0.3 in
      if solution = ''grid_extension'' then distance * 1000 + households * 200
      else if startswith solution ''mini_grid'' then
        (let capacity_kw = households * 0.5 in capacity_kw * 1500 + households * 300)
      else households * 500)"

text \<open>
  One element of the \<^verbatim>\<open>np.where(estimated_population > 0, estimated_cost /
  np.maximum(estimated_population, 1), 0.0)\<close> of \<^verbatim>\<open>compute_scores\<close>, and the
  column \<^verbatim>\<open>cost_per_person_usd\<close> that stores it rounded to two decimals.
\<close>

definition cost_per_person :: "real \<Rightarrow> real \<Rightarrow> real" where
  "cost_per_person estimated_cost estimated_population =
     (if estimated_population > 0 then estimated_cost / max estimated_population 1 else 0)"

subsection \<open>Field resolution and population estimate (scoring.py, utils.py)\<close>

text \<open>
  The input of the Scoring Engine: a data frame of \<open>n_rows\<close> rows whose numeric columns
  are looked up by name. A cell is what \<^verbatim>\<open>pd.to_numeric(..., errors="coerce")\<close>
  gives: \<open>None\<close> is NaN (a missing or unparsable value). Every column has \<open>n_rows\<close> cells.
\<close>

record geo_frame =
  n_rows :: nat
  columns :: "string \<rightharpoonup> real option list"

definition fillna :: "real \<Rightarrow> real option \<Rightarrow> real" where
  "fillna dflt c = (case c of None \<Rightarrow> dflt | Some v \<Rightarrow> v)"

fun resolve_field :: "geo_frame \<Rightarrow> string list \<Rightarrow> real \<Rightarrow> real list" where
  "resolve_field data [] dflt = replicate (n_rows data) dflt"
| "resolve_field data (field # candidates) dflt =
     (case columns data field of
        Some col \<Rightarrow> map (fillna dflt) col
      | None \<Rightarrow> resolve_field data candidates dflt)"

text \<open>The \<^verbatim>\<open>for ... else\<close> loop of \<^verbatim>\<open>utils.estimate_population\<close>.\<close>

fun candidate_values :: "geo_frame \<Rightarrow> string list \<Rightarrow> real list" where
  "candidate_values frame [] = replicate (n_rows frame) 0"
| "candidate_values frame (field # population_candidates) =
     (case columns frame field of
        Some col \<Rightarrow> map (fillna 0) col
      | None \<Rightarrow> candidate_values frame population_candidates)"

text \<open>
  \<^verbatim>\<open>values.max()\<close> of an empty series is NaN, and \<^verbatim>\<open>NaN > 1.0\<close> is false: the
  percentages branch is taken only by a non-empty column.
\<close>

definition estimate_population :: "geo_frame \<Rightarrow> string list \<Rightarrow> real \<Rightarrow> real list" where
  "estimate_population frame population_candidates scale =
     (let vals = candidate_values frame population_candidates;
          vals = (if vals \<noteq> [] \<and> Max (set vals) > 1
                  then map (\<lambda>v. clip v 0 100 / 100) vals else vals);
          vals = map (\<lambda>v. clip v 0 1) vals
      in map (\<lambda>v. v * scale) vals)"

subsection \<open>\<^verbatim>\<open>compute_scores\<close>\<close>

text \<open>
  The columns \<^verbatim>\<open>compute_scores\<close> appends to a cluster record. The type
  parameter is the type of a score cell: float64 in the output of the Scoring Engine,
  where a normalized score can be NaN, and a number where a later engine reads the
  column. The JSON metadata column (weights and a timestamp) and the columns the
  function only carries through are left out.
\<close>

record 'score scored_cluster =
  population_score :: 'score
  access_gap_score :: 'score
  economic_score :: 'score
  social_need_score :: 'score
  grid_proximity_score :: 'score
  priority_score :: 'score
  priority_category :: string
  recommended_solution :: string
  estimated_population :: real
  estimated_cost_usd :: real
  cost_per_person_usd :: real

text \<open>
  The local array \<^verbatim>\<open>composite\<close>: the weighted sum of the five sub-scores, added
  from left to right as the source writes it.
\<close>

definition composite_scores :: "config \<Rightarrow> geo_frame \<Rightarrow> float64 list" where
  "composite_scores cfg gdf =
     (let fallback = fallback_fields cfg;
          population_index = resolve_field gdf (dict_get fallback ''population'' []) 0;
          access_gap_raw = resolve_field gdf (dict_get fallback ''access_gap'' []) 0;
          economic_raw = resolve_field gdf (dict_get fallback ''economic'' []) 0;
          social_raw = resolve_field gdf (dict_get fallback ''social'' []) 0;
          grid_distance = resolve_field gdf (dict_get fallback ''grid_distance'' []) 50;
          population_sc = normalize_to_ten (map Finite population_index) False;
          access_gap_sc = normalize_to_ten (map Finite access_gap_raw) True;
          economic_sc = normalize_to_ten (map Finite economic_raw) False;
          social_adjusted =
            map (\<lambda>(s, p). if s > 0 then s else exp (- \<bar>p - 0.4\<bar>)) (zip social_raw population_index);
          social_need_sc = normalize_to_ten (map Finite social_adjusted) False;
          grid_proximity_sc = normalize_to_ten (map Finite grid_distance) True;
          w = weights cfg
      in map (\<lambda>i.
                fadd (fadd (fadd (fadd
                  (fmul (Finite (dict_get w ''population'' 0)) (population_sc ! i))
                  (fmul (Finite (dict_get w ''access_gap'' 0)) (access_gap_sc ! i)))
                  (fmul (Finite (dict_get w ''economic_activity'' 0)) (economic_sc ! i)))
                  (fmul (Finite (dict_get w ''social_need'' 0)) (social_need_sc ! i)))
                  (fmul (Finite (dict_get w ''grid_proximity'' 0)) (grid_proximity_sc ! i)))
           [0 ..< n_rows gdf])"

definition compute_scores :: "config \<Rightarrow> geo_frame \<Rightarrow> float64 scored_cluster list" where
  "compute_scores cfg gdf =
     (let fallback = fallback_fields cfg;
          population_index = resolve_field gdf (dict_get fallback ''population'' []) 0;
          access_gap_raw = resolve_field gdf (dict_get fallback ''access_gap'' []) 0;
          economic_raw = resolve_field gdf (dict_get fallback ''economic'' []) 0;
          social_raw = resolve_field gdf (dict_get fallback ''social'' []) 0;
          grid_distance = resolve_field gdf (dict_get fallback ''grid_distance'' []) 50;
          population_sc = normalize_to_ten (map Finite population_index) False;
          access_gap_sc = normalize_to_ten (map Finite access_gap_raw) True;
          economic_sc = normalize_to_ten (map Finite economic_raw) False;
          social_adjusted =
            map (\<lambda>(s, p). if s > 0 then s else exp (- \<bar>p - 0.4\<bar>)) (zip social_raw population_index);
          social_need_sc = normalize_to_ten (map Finite social_adjusted) False;
          grid_proximity_sc = normalize_to_ten (map Finite grid_distance) True;
          composite = composite_scores cfg gdf;
          recommendations =
            map (\<lambda>(dist, pop_idx, econ).
                   recommend_solution (recommendation_rules cfg) dist pop_idx (economic_score_of econ))
              (zip grid_distance (zip population_index economic_sc));
          est_population =
            estimate_population gdf (dict_get fallback ''population'' []) (population_scale cfg);
          est_cost =
            map (\<lambda>(sol, pop, dist). estimate_cost sol pop dist)
              (zip recommendations (zip est_population grid_distance))
      in map (\<lambda>i.
            \<lparr> population_score = np_round_float (population_sc ! i) 2,
              access_gap_score = np_round_float (access_gap_sc ! i) 2,
              economic_score = np_round_float (economic_sc ! i) 2,
              social_need_score = np_round_float (social_need_sc ! i) 2,
              grid_proximity_score = np_round_float (grid_proximity_sc ! i) 2,
              priority_score = np_round_float (composite ! i) 2,
              priority_category = categorize_float (thresholds cfg) (composite ! i),
              recommended_solution = recommendations ! i,
              estimated_population = of_int (rint (est_population ! i)),
              estimated_cost_usd = np_round (est_cost ! i) 2,
              cost_per_person_usd = np_round (cost_per_person (est_cost ! i) (est_population ! i)) 2 \<rparr>)
           [0 ..< n_rows gdf])"

section \<open>Demand Forecast Engine: pipeline/demand.py\<close>

text \<open>
  A cluster record as the Demand Forecast Engine and the Scenario Engine see it: the
  scoring columns, the upstream columns the two engines read, and the columns they add.
  The columns \<^verbatim>\<open>population_{target_year}\<close>, \<^verbatim>\<open>demand_{target_year}_mwh_year\<close>
  and \<^verbatim>\<open>peak_demand_{target_year}_kw\<close> are the three \<open>target\<close> fields. The cells
  of \<open>norm_pop\<close>, \<open>pop_index\<close> and \<open>energy_need_score\<close> are what
  \<^verbatim>\<open>pd.to_numeric(..., errors="coerce")\<close> reads: \<open>None\<close> is NaN. A \<open>scenario_tag\<close>
  of \<open>None\<close> is a row no intervention has tagged. Geometry and every other column
  the engines never touch are left out.
\<close>

record cluster = "real scored_cluster" +
  norm_pop :: "real option"
  pop_index :: "real option"
  energy_need_score :: "real option"
  building_density :: real
  dist_to_power_km :: real
  electrification_status :: string
  demand_per_household_kwh :: real
  baseline_demand_mwh_year :: real
  baseline_peak_demand_kw :: real
  population_target :: real
  demand_target_mwh_year :: real
  peak_demand_target_kw :: real
  solar_capacity_mw :: real
  scenario_tag :: "string option"

text \<open>
  A data frame: its rows in order (the index is the range \<open>0 ..< length rows\<close>, as
  \<^verbatim>\<open>gpd.read_file\<close> gives it) and the names of the columns it has among those
  the code treats as optional (\<open>norm_pop\<close>, \<open>pop_index\<close>, \<open>energy_need_score\<close>,
  \<open>building_density\<close>, \<open>dist_to_power_km\<close>, \<open>estimated_cost_usd\<close>,
  \<open>solar_capacity_mw\<close>, \<open>scenario_tag\<close>). The field of an absent column holds no
  information.
\<close>

record frame =
  optional_columns :: "string list"
  rows :: "cluster list"

definition has_column :: "frame \<Rightarrow> string \<Rightarrow> bool" where
  "has_column df c = (c \<in> set (optional_columns df))"

record demand_config =
  population_growth_cfg :: "string \<rightharpoonup> real"
  baseline_consumption :: real
  load_factor :: real
  electrification_target_rate :: real
  consumption_growth_rate :: real
  demand_population_scale :: real

text \<open>The method \<^verbatim>\<open>_estimate_population\<close> of the demand pipeline.\<close>

definition demand_estimate_population :: "demand_config \<Rightarrow> frame \<Rightarrow> real list" where
  "demand_estimate_population cfg df =
     (let pop_idx =
            (if has_column df ''norm_pop'' then map norm_pop (rows df)
             else if has_column df ''pop_index'' then map pop_index (rows df)
             else map (\<lambda>r. Some (population_score r / 10)) (rows df));
          pop_idx = map (\<lambda>c. clip (fillna 0 c) 0 1) pop_idx
      in map (\<lambda>p. p * demand_population_scale cfg) pop_idx)"

definition status_from_need :: "real \<Rightarrow> string" where
  "status_from_need score =
     (if score \<ge> 60 then ''none''
      else if score \<ge> 40 then ''partial''
      else ''electrified'')"

text \<open>The nested function \<^verbatim>\<open>household_demand\<close> of \<^verbatim>\<open>_baseline_demand\<close>.\<close>

definition household_demand :: "string \<Rightarrow> real \<Rightarrow> real" where
  "household_demand status need =
     (if status = ''electrified'' then 2000 - need * 5
      else if status = ''partial'' then 800
      else 450)"

text \<open>
  \<^verbatim>\<open>_baseline_demand\<close>. With no \<open>energy_need_score\<close> column,
  \<^verbatim>\<open>gdf.get("energy_need_score", 0)\<close> is the integer 0, \<^verbatim>\<open>pd.to_numeric\<close>
  returns a scalar unchanged, and \<^verbatim>\<open>.fillna\<close> on it raises AttributeError.
  With the column, a NaN cell reads as 0.
\<close>

definition baseline_demand :: "demand_config \<Rightarrow> frame \<Rightarrow> error + frame" where
  "baseline_demand cfg gdf =
     (let est = demand_estimate_population cfg gdf in
      if \<not> has_column gdf ''energy_need_score'' then Inl (AttributeError ''fillna'')
      else
        Inr (gdf\<lparr>rows :=
          map (\<lambda>(r, pop).
                 let need_score = fillna 0 (energy_need_score r);
                     status = status_from_need need_score;
                     households = pop * 0.3;
                     per_household = household_demand status need_score;
                     demand = (households * per_household) / 1000
                 in r\<lparr>estimated_population := pop,
                      electrification_status := status,
                      demand_per_household_kwh := per_household,
                      baseline_demand_mwh_year := demand,
                      baseline_peak_demand_kw :=
                        (demand * 1000) / (365 * 24 * max (load_factor cfg) 0.01)\<rparr>)
              (zip (rows gdf) est)\<rparr>))"






section \<open>Scenario Engine: pipeline/scenario.py\<close>

subsection \<open>Interventions and the pandas selections they use\<close>

text \<open>
  An intervention is a JSON object; each field is \<open>None\<close> when the key is absent, and
  the source reads it with \<^verbatim>\<open>intervention.get(key, default)\<close>.
\<close>

record intervention =
  iv_type :: "string option"
  iv_count :: "int option"
  iv_target :: "string option"
  iv_rate :: "real option"
  iv_capacity_mw :: "real option"

record scenario_definition =
  name :: string
  description :: string
  interventions :: "intervention list"

definition get_or :: "'a option \<Rightarrow> 'a \<Rightarrow> 'a" where
  "get_or v dflt = (case v of None \<Rightarrow> dflt | Some x \<Rightarrow> x)"

text \<open>
  The rows of a frame with their index labels. \<^verbatim>\<open>nlargest(n, column)\<close> and
  \<^verbatim>\<open>nsmallest(n, column)\<close> (with \<^verbatim>\<open>keep="first"\<close>) select the first \<open>n\<close> rows
  of a stable sort, so equal keys stay in row order; both are empty for \<open>n \<le> 0\<close>.
  \<^verbatim>\<open>head(n)\<close> keeps the first \<open>n\<close> rows, and for a negative \<open>n\<close> all rows but the
  last \<open>-n\<close>.
\<close>

definition indexed :: "cluster list \<Rightarrow> (nat \<times> cluster) list" where
  "indexed rs = enumerate 0 rs"

definition nlargest :: "int \<Rightarrow> (cluster \<Rightarrow> real) \<Rightarrow> (nat \<times> cluster) list \<Rightarrow> (nat \<times> cluster) list" where
  "nlargest n col irs = (if n \<le> 0 then [] else take (nat n) (sort_key (\<lambda>(i, r). - col r) irs))"

definition nsmallest :: "int \<Rightarrow> (cluster \<Rightarrow> real) \<Rightarrow> (nat \<times> cluster) list \<Rightarrow> (nat \<times> cluster) list" where
  "nsmallest n col irs = (if n \<le> 0 then [] else take (nat n) (sort_key (\<lambda>(i, r). col r) irs))"

definition head :: "int \<Rightarrow> (nat \<times> cluster) list \<Rightarrow> (nat \<times> cluster) list" where
  "head n irs = (if n \<ge> 0 then take (nat n) irs else take (length irs - nat (- n)) irs)"

text \<open>\<^verbatim>\<open>series.str.contains(pat)\<close> for a pattern with no regex metacharacter.\<close>

fun str_contains :: "string \<Rightarrow> string \<Rightarrow> bool" where
  "str_contains [] pat = (pat = [])"
| "str_contains (c # s) pat = (startswith (c # s) pat \<or> str_contains s pat)"

text \<open>
  \<^verbatim>\<open>result.loc[idx, ...] = ...\<close>: the rows whose label is in \<open>idx\<close> are updated,
  the others kept.
\<close>

definition loc_update :: "nat list \<Rightarrow> (cluster \<Rightarrow> cluster) \<Rightarrow> frame \<Rightarrow> frame" where
  "loc_update idx f df =
     df\<lparr>rows := map (\<lambda>(i, r). if i \<in> set idx then f r else r) (indexed (rows df))\<rparr>"

definition add_column :: "string \<Rightarrow> frame \<Rightarrow> frame" where
  "add_column c df =
     (if has_column df c then df else df\<lparr>optional_columns := optional_columns df @ [c]\<rparr>)"

subsection \<open>\<^verbatim>\<open>apply_intervention\<close>\<close>

text \<open>
  What the branches of \<^verbatim>\<open>apply_intervention\<close> do to \<^verbatim>\<open>result\<close>, the copy the
  function has just made. \<^verbatim>\<open>nsmallest\<close> on a frame with no \<open>dist_to_power_km\<close>
  column raises KeyError before anything is written. The last write of the first two
  branches, \<^verbatim>\<open>result.loc[idx, "scenario_tag"] = ...\<close>, creates the column when the
  frame has none, and pandas refuses that on a frame of zero rows with ValueError
  ("cannot set a frame with no defined index and a scalar"); the writes before it touch
  existing columns and, with zero rows, change nothing. A type tag that matches no
  branch leaves \<^verbatim>\<open>result\<close> as it is.
\<close>

definition intervention_effect :: "intervention \<Rightarrow> frame \<Rightarrow> error + frame" where
  "intervention_effect iv result =
     (let itype = iv_type iv in
      if itype = Some ''grid_extension'' then
        (let count = get_or (iv_count iv) 10;
             target = get_or (iv_target iv) ''top_priority'';
             write = (\<lambda>targets.
               if length (rows result) = 0 \<and> \<not> has_column result ''scenario_tag''
               then Inl (ValueError ''cannot set a frame with no defined index and a scalar'')
               else
                 Inr (add_column ''scenario_tag''
                   (loc_update (map fst targets)
                      (\<lambda>r. r\<lparr>electrification_status := ''electrified'',
                              recommended_solution := ''grid_extension'',
                              baseline_demand_mwh_year := baseline_demand_mwh_year r * 1.5,
                              scenario_tag := Some ''grid_extension''\<rparr>)
                      result)))
         in if target = ''top_priority'' then
              write (nlargest count priority_score (indexed (rows result)))
            else if target = ''nearest_grid'' then
              (if has_column result ''dist_to_power_km''
               then write (nsmallest count dist_to_power_km (indexed (rows result)))
               else Inl (KeyError ''dist_to_power_km''))
            else write (head count (indexed (rows result))))
      else if itype = Some ''mini_grid_deployment'' then
        (let count = get_or (iv_count iv) 20;
             suitable =
               filter (\<lambda>(i, r). str_contains (recommended_solution r) ''mini''
                                 \<or> electrification_status r = ''none'')
                 (indexed (rows result));
             targets = nlargest count priority_score suitable
         in if length (rows result) = 0 \<and> \<not> has_column result ''scenario_tag''
            then Inl (ValueError ''cannot set a frame with no defined index and a scalar'')
            else
              Inr (add_column ''scenario_tag''
                (loc_update (map fst targets)
                   (\<lambda>r. r\<lparr>electrification_status := ''partial'',
                           recommended_solution := ''mini_grid'',
                           baseline_demand_mwh_year := baseline_demand_mwh_year r * 1.3,
                           scenario_tag := Some ''mini_grid''\<rparr>)
                   result)))
      else if itype = Some ''population_growth'' then
        (let rate = get_or (iv_rate iv) 0.1 in
         Inr (add_column ''scenario_tag''
           (result\<lparr>rows :=
              map (\<lambda>r. r\<lparr>estimated_population := estimated_population r * (1 + rate),
                           baseline_demand_mwh_year := baseline_demand_mwh_year r * (1 + rate),
                           baseline_peak_demand_kw := baseline_peak_demand_kw r * (1 + rate),
                           scenario_tag := Some ''population_growth''\<rparr>)
                (rows result)\<rparr>)))
      else if itype = Some ''demand_increase'' then
        (let rate = get_or (iv_rate iv) 0.2 in
         Inr (add_column ''scenario_tag''
           (result\<lparr>rows :=
              map (\<lambda>r. r\<lparr>baseline_demand_mwh_year := baseline_demand_mwh_year r * (1 + rate),
                           baseline_peak_demand_kw := baseline_peak_demand_kw r * (1 + rate),
                           scenario_tag := Some ''demand_increase''\<rparr>)
                (rows result)\<rparr>)))
      else if itype = Some ''solar_capacity_addition'' then
        (let capacity = get_or (iv_capacity_mw iv) 50;
             per_cluster = capacity / real (max (length (rows result)) 1);
             present = has_column result ''solar_capacity_mw''
         in Inr (add_column ''scenario_tag''
                  (add_column ''solar_capacity_mw''
                     (result\<lparr>rows :=
                        map (\<lambda>r. r\<lparr>solar_capacity_mw :=
                                       (if present then solar_capacity_mw r else 0) + per_cluster,
                                     scenario_tag := Some ''solar_capacity''\<rparr>)
                          (rows result)\<rparr>))))
      else Inr result)"

text \<open>
  Data frames are mutable objects, and the claims about the baseline are about aliasing:
  a variable of the source holds an address, and the store maps addresses to frames.
  \<^verbatim>\<open>data.copy()\<close> allocates a new frame with the same contents;
  \<^verbatim>\<open>apply_intervention\<close> copies its argument, writes to the copy only and returns
  the copy's address. An exception leaves the store as it was when raised.
\<close>

type_synonym addr = nat

type_synonym store = "frame list"

definition copy :: "store \<Rightarrow> addr \<Rightarrow> addr \<times> store" where
  "copy st a = (length st, st @ [st ! a])"

definition apply_intervention :: "store \<Rightarrow> addr \<Rightarrow> intervention \<Rightarrow> (error + addr) \<times> store" where
  "apply_intervention st data iv =
     (let (result, st) = copy st data in
      case intervention_effect iv (st ! result) of
        Inl e \<Rightarrow> (Inl e, st)
      | Inr written \<Rightarrow> (Inr result, st[result := written]))"

subsection \<open>\<^verbatim>\<open>calculate_impacts\<close> and \<^verbatim>\<open>run\<close>\<close>

text \<open>
  The impact metrics of one scenario. \<open>cost_usd\<close> is \<open>None\<close> for the source's
  \<^verbatim>\<open>float("nan")\<close>. The last entry divides two Python integers, and
  \<^verbatim>\<open>len(scenario)\<close> equal to 0 raises ZeroDivisionError.
\<close>

record impacts =
  people_electrified :: real
  settlements_connected :: real
  demand_increase_mwh :: real
  cost_usd :: "real option"
  electrification_rate :: real

definition calculate_impacts :: "frame \<Rightarrow> frame \<Rightarrow> error + impacts" where
  "calculate_impacts baseline scenario =
     (let baseline_unelectrified = filter (\<lambda>r. electrification_status r = ''none'') (rows baseline);
          scenario_unelectrified = filter (\<lambda>r. electrification_status r = ''none'') (rows scenario);
          people =
            sum_list (map estimated_population baseline_unelectrified)
              - sum_list (map estimated_population scenario_unelectrified);
          settlements = int (length baseline_unelectrified) - int (length scenario_unelectrified);
          demand_baseline = sum_list (map baseline_demand_mwh_year (rows baseline));
          demand_scenario = sum_list (map baseline_demand_mwh_year (rows scenario));
          cost_total =
            (if has_column scenario ''estimated_cost_usd''
             then Some (sum_list (map estimated_cost_usd (rows scenario)))
             else None)
      in if length (rows scenario) = 0 then Inl ZeroDivisionError
         else
           Inr \<lparr> people_electrified = max people 0,
                 settlements_connected = of_int (max settlements 0),
                 demand_increase_mwh = demand_scenario - demand_baseline,
                 cost_usd = cost_total,
                 electrification_rate =
                   real (length (filter (\<lambda>r. electrification_status r \<noteq> ''none'') (rows scenario)))
                     / real (length (rows scenario)) \<rparr>)"

text \<open>
  \<^verbatim>\<open>run\<close>: the inner loop over a scenario's interventions, one scenario, the loop
  over the scenario definitions, and the whole method. \<^verbatim>\<open>load_baseline\<close> reads the
  demand output into a new frame; the comparison row of a scenario is its name, its
  description and its impacts (the timestamp and the files written are left out).
\<close>

fun apply_interventions :: "store \<Rightarrow> addr \<Rightarrow> intervention list \<Rightarrow> (error + addr) \<times> store" where
  "apply_interventions st scenario_data [] = (Inr scenario_data, st)"
| "apply_interventions st scenario_data (iv # ivs) =
     (case apply_intervention st scenario_data iv of
        (Inl e, st') \<Rightarrow> (Inl e, st')
      | (Inr scenario_data', st') \<Rightarrow> apply_interventions st' scenario_data' ivs)"

definition run_scenario ::
  "store \<Rightarrow> addr \<Rightarrow> scenario_definition \<Rightarrow> (error + string \<times> string \<times> impacts) \<times> store" where
  "run_scenario st baseline defn =
     (let (scenario_data, st) = copy st baseline in
      case apply_interventions st scenario_data (interventions defn) of
        (Inl e, st') \<Rightarrow> (Inl e, st')
      | (Inr scenario_data', st') \<Rightarrow>
          (case calculate_impacts (st' ! baseline) (st' ! scenario_data') of
             Inl e \<Rightarrow> (Inl e, st')
           | Inr imp \<Rightarrow> (Inr (name defn, description defn, imp), st')))"

fun run_scenarios ::
  "store \<Rightarrow> addr \<Rightarrow> scenario_definition list
     \<Rightarrow> (error + (string \<times> string \<times> impacts) list) \<times> store" where
  "run_scenarios st baseline [] = (Inr [], st)"
| "run_scenarios st baseline (defn # defns) =
     (case run_scenario st baseline defn of
        (Inl e, st') \<Rightarrow> (Inl e, st')
      | (Inr row, st') \<Rightarrow>
          (case run_scenarios st' baseline defns of
             (Inl e, st'') \<Rightarrow> (Inl e, st'')
           | (Inr scenarios, st'') \<Rightarrow> (Inr (row # scenarios), st'')))"

definition run ::
  "store \<Rightarrow> frame \<Rightarrow> scenario_definition list
     \<Rightarrow> (error + (string \<times> string \<times> impacts) list) \<times> store" where
  "run st demand_output defns =
     (let baseline = length st; st = st @ [demand_output]
      in run_scenarios st baseline defns)"

section \<open>Example data\<close>



definition example_demand_config :: demand_config where
  "example_demand_config =
     \<lparr> population_growth_cfg = Map.empty, baseline_consumption = 500, load_factor = 0.3,
       electrification_target_rate = 0.8, consumption_growth_rate = 0.025,
       demand_population_scale = 5000 \<rparr>"

definition blank_cluster :: cluster where
  "blank_cluster =
     \<lparr> population_score = 0, access_gap_score = 0, economic_score = 0, social_need_score = 0,
       grid_proximity_score = 0, priority_score = 0, priority_category = ''Low'',
       recommended_solution = ''mini_grid_solar'', estimated_population = 0,
       estimated_cost_usd = 0, cost_per_person_usd = 0,
       norm_pop = None, pop_index = None, energy_need_score = None, building_density = 0,
       dist_to_power_km = 0, electrification_status = ''electrified'',
       demand_per_household_kwh = 0, baseline_demand_mwh_year = 0, baseline_peak_demand_kw = 0,
       population_target = 0, demand_target_mwh_year = 0, peak_demand_target_kw = 0,
       solar_capacity_mw = 0, scenario_tag = None \<rparr>"

text \<open>Two clusters whose priority score and energy need score fall in different bands.\<close>

definition need_example :: frame where
  "need_example =
     \<lparr> optional_columns = [''energy_need_score''],
       rows = [blank_cluster\<lparr>priority_score := 70, energy_need_score := Some 10\<rparr>,
               blank_cluster\<lparr>priority_score := 7.5, energy_need_score := Some 80\<rparr>] \<rparr>"


text \<open>
  Three clusters with priority scores 80, 50, 20 and grid distances 2, 10, 40, each of
  1000 people and 100 MWh of baseline demand.
\<close>

definition example_cluster :: "real \<Rightarrow> real \<Rightarrow> string \<Rightarrow> cluster" where
  "example_cluster score km status =
     blank_cluster\<lparr>priority_score := score, dist_to_power_km := km,
       electrification_status := status, estimated_population := 1000,
       baseline_demand_mwh_year := 100\<rparr>"

definition scenario_example :: frame where
  "scenario_example =
     \<lparr> optional_columns = [''dist_to_power_km'', ''estimated_cost_usd''],
       rows = [example_cluster 80 2 ''none'', example_cluster 50 10 ''partial'',
               example_cluster 20 40 ''electrified''] \<rparr>"

definition grid_extension_top1 :: intervention where
  "grid_extension_top1 =
     \<lparr> iv_type = Some ''grid_extension'', iv_count = Some 1, iv_target = Some ''top_priority'',
       iv_rate = None, iv_capacity_mw = None \<rparr>"

definition unknown_intervention :: intervention where
  "unknown_intervention =
     \<lparr> iv_type = Some ''road_building'', iv_count = Some 3, iv_target = None,
       iv_rate = Some 0.5, iv_capacity_mw = None \<rparr>"

text \<open>
  A population-growth intervention with the default rate, the frame it makes of the
  three clusters, and a scenario of one grid extension.
\<close>

definition population_growth_default :: intervention where
  "population_growth_default =
     \<lparr> iv_type = Some ''population_growth'', iv_count = None, iv_target = None,
       iv_rate = None, iv_capacity_mw = None \<rparr>"

definition grown_example :: frame where
  "grown_example =
     scenario_example\<lparr>
       optional_columns := [''dist_to_power_km'', ''estimated_cost_usd'', ''scenario_tag''],
       rows :=
         map (\<lambda>r. r\<lparr>estimated_population := 1100, baseline_demand_mwh_year := 110,
                      scenario_tag := Some ''population_growth''\<rparr>) (rows scenario_example)\<rparr>"

definition empty_example :: frame where
  "empty_example = scenario_example\<lparr>rows := []\<rparr>"

definition grid_scenario :: scenario_definition where
  "grid_scenario =
     \<lparr> name = ''Grid Extension'', description = ''Extend the grid to the top cluster'',
       interventions = [grid_extension_top1] \<rparr>"

section \<open>Properties of the Scoring Engine\<close>

lemma dict_get_empty: "dict_get Map.empty k d = d"
  by (simp add: dict_get_def)

text \<open>
  Claim C5. The recommendation rule is evaluated in fixed priority order and the first
  match wins: whenever the grid-extension condition holds (distance at most its maximum
  distance and population index at least its minimum index) together with the
  mini-grid-hybrid condition, \<open>recommend_solution\<close> returns "grid_extension".
\<close>

theorem recommend_solution_first_match:
  assumes grid:
    "d_km \<le> dict_get (dict_get rules ''grid_extension'' Map.empty) ''max_distance_km'' 5"
    "p_idx \<ge>
       dict_get (dict_get rules ''grid_extension'' Map.empty) ''min_population_index'' 0.6"
  and hybrid:
    "d_km \<le> dict_get (dict_get rules ''mini_grid_hybrid'' Map.empty) ''max_distance_km'' 15"
    "p_idx \<ge>
       dict_get (dict_get rules ''mini_grid_hybrid'' Map.empty) ''min_population_index'' 0.3"
    "clamp (econ / 10) 0 1 \<ge>
       dict_get (dict_get rules ''mini_grid_hybrid'' Map.empty) ''min_road_density'' 0.5"
  shows "recommend_solution rules d_km p_idx econ = ''grid_extension''"
  using grid by (simp add: recommend_solution_def Let_def)

theorem recommend_solution_first_match_witness:
  "recommend_solution Map.empty 3 0.7 8 = ''grid_extension''"
  by (rule recommend_solution_first_match) (simp_all add: dict_get_empty clamp_def)



subsection \<open>Normalization\<close>

lemma float_overflow_bounds: "0 < float_overflow" "10 < float_overflow"
  by (simp_all add: float_overflow_def)

lemma overflow_Finite: "- float_overflow < x \<Longrightarrow> x < float_overflow \<Longrightarrow> overflow x = Finite x"
  by (simp add: overflow_def)

lemma fsub_Finite:
  "- float_overflow < a - b \<Longrightarrow> a - b < float_overflow
   \<Longrightarrow> fsub (Finite a) (Finite b) = Finite (a - b)"
  by (simp add: fsub_def overflow_Finite)

lemma isclose_refl: "isclose a a"
  using float_overflow_bounds(1) by (simp add: isclose_def fsub_Finite)


text \<open>
  One element of the rescaled array when the range does not overflow: every float64
  operation returns the exact finite result.
\<close>

lemma normalize_element:
  assumes "vmin \<le> x" "x \<le> vmax" "vmin < vmax" "vmax - vmin < float_overflow"
  shows "(let normalized =
                fdiv (fsub (Finite x) (Finite vmin)) (fsub (Finite vmax) (Finite vmin));
              normalized = (if invert then fsub (Finite 1) normalized else normalized)
          in fclip (fmul normalized (Finite 10)) 0 10)
         = Finite (clip ((if invert then 1 - (x - vmin) / (vmax - vmin)
                          else (x - vmin) / (vmax - vmin)) * 10) 0 10)"
proof -
  let ?n = "(x - vmin) / (vmax - vmin)"
  have pos: "0 < float_overflow" "10 < float_overflow"
    by (rule float_overflow_bounds)+
  have n: "0 \<le> ?n" "?n \<le> 1"
    using assms by simp_all
  have s1: "fsub (Finite x) (Finite vmin) = Finite (x - vmin)"
    using assms pos by (intro fsub_Finite) linarith+
  have s2: "fsub (Finite vmax) (Finite vmin) = Finite (vmax - vmin)"
    using assms pos by (intro fsub_Finite) linarith+
  have "- float_overflow < ?n" "?n < float_overflow"
    using n pos by linarith+
  then have d: "fdiv (Finite (x - vmin)) (Finite (vmax - vmin)) = Finite ?n"
    using assms by (simp add: overflow_Finite)
  have i: "fsub (Finite 1) (Finite ?n) = Finite (1 - ?n)"
    using n pos by (intro fsub_Finite) linarith+
  have m: "fmul (Finite y) (Finite 10) = Finite (y * 10)" if "0 \<le> y" "y \<le> 1" for y :: real
  proof -
    have "- float_overflow < y * 10" "y * 10 < float_overflow"
      using that pos by linarith+
    then show ?thesis
      by (simp add: overflow_Finite)
  qed
  have m1: "fmul (Finite ?n) (Finite 10) = Finite (?n * 10)"
    using n by (rule m)
  have m2: "fmul (Finite (1 - ?n)) (Finite 10) = Finite ((1 - ?n) * 10)"
    using n by (intro m) linarith+
  show ?thesis
    by (cases invert) (simp_all only: Let_def s1 s2 d i m1 m2 fclip.simps if_True if_False)
qed

lemma normalize_no_overflow:
  assumes ne: "vals \<noteq> []"
    and span: "\<forall>x \<in> set vals. \<forall>y \<in> set vals. nan_to_num x - nan_to_num y < float_overflow"
    and far: "\<not> isclose (Max (nan_to_num ` set vals)) (Min (nan_to_num ` set vals))"
  shows "normalize_to_ten vals invert =
         map (\<lambda>v. let vmax = Max (nan_to_num ` set vals); vmin = Min (nan_to_num ` set vals);
                      normalized = (nan_to_num v - vmin) / (vmax - vmin)
                  in Finite (clip ((if invert then 1 - normalized else normalized) * 10) 0 10))
           vals"
proof -
  let ?A = "nan_to_num ` set vals"
  have fin: "finite ?A" "?A \<noteq> {}"
    using ne by simp_all
  have "Max ?A \<in> ?A" "Min ?A \<in> ?A"
    by (rule Max_in [OF fin], rule Min_in [OF fin])
  with span have sp: "Max ?A - Min ?A < float_overflow"
    by auto
  have le: "Min ?A \<le> Max ?A"
    using fin by (simp add: Min_le_iff)
  with far isclose_refl have lt: "Min ?A < Max ?A"
    by (cases "Min ?A = Max ?A") auto
  have el: "(let normalized =
                fdiv (fsub (Finite (nan_to_num v)) (Finite (Min ?A)))
                  (fsub (Finite (Max ?A)) (Finite (Min ?A)));
              normalized = (if invert then fsub (Finite 1) normalized else normalized)
          in fclip (fmul normalized (Finite 10)) 0 10)
         = Finite (clip ((if invert then 1 - (nan_to_num v - Min ?A) / (Max ?A - Min ?A)
                          else (nan_to_num v - Min ?A) / (Max ?A - Min ?A)) * 10) 0 10)"
    if "v \<in> set vals" for v
    using that fin lt sp by (intro normalize_element) simp_all
  show ?thesis
    using ne far el by (simp add: normalize_to_ten_def Let_def o_def cong: map_cong)
qed

lemma normalize_range:
  assumes span: "\<forall>x \<in> set vals. \<forall>y \<in> set vals. nan_to_num x - nan_to_num y < float_overflow"
    and v: "v \<in> set (normalize_to_ten vals invert)"
  shows "\<exists>r. v = Finite r \<and> 0 \<le> r \<and> r \<le> 10"
proof (cases "vals = [] \<or> isclose (Max (nan_to_num ` set vals)) (Min (nan_to_num ` set vals))")
  case True
  with v show ?thesis
    by (auto simp add: normalize_to_ten_def Let_def split: if_splits)
next
  case False
  with normalize_no_overflow [OF _ span, of invert] v show ?thesis
    by (auto simp add: Let_def clip_def)
qed

lemma normalize_all_equal:
  assumes "vals \<noteq> []" "\<forall>v \<in> set vals. nan_to_num v = c"
  shows "normalize_to_ten vals invert = replicate (length vals) (Finite 5)"
proof -
  have s: "set (map nan_to_num vals) = {c}"
    using assms by (cases vals) auto
  show ?thesis
    using assms(1)
    by (simp add: normalize_to_ten_def Let_def s isclose_refl map_replicate_const del: set_map)
qed

lemma normalize_replaced:
  "normalize_to_ten vals invert = normalize_to_ten (map (\<lambda>v. Finite (nan_to_num v)) vals) invert"
  by (simp add: normalize_to_ten_def o_def)

text \<open>
  Claim C3, amended. For every input whose values, once the non-finite ones are replaced
  by 0, differ pairwise by less than the float64 overflow threshold
  \<open>2 ^ 1024 - 2 ^ 970\<close>, every value \<open>normalize_to_ten\<close> returns is a number in
  [0, 10]. For every input: a non-empty input whose values after the replacement are all
  equal maps to 5.0 everywhere; the empty input maps to the empty output; and the
  non-finite values are replaced by 0 before the range is computed. The result is the
  one for the input with every non-finite value replaced by 0, and without overflow and
  with a minimum and a maximum that are not close it is the rescaling of the replaced
  values between their minimum and their maximum, clipped to [0, 10]. As stated, for
  every real-valued input, the range fails: when the difference of two finite values
  overflows, an output is NaN.
\<close>

theorem normalize_to_ten_range_and_degenerate:
  "((\<forall>x \<in> set vals. \<forall>y \<in> set vals. nan_to_num x - nan_to_num y < float_overflow)
      \<longrightarrow> (\<forall>v \<in> set (normalize_to_ten vals invert). \<exists>r. v = Finite r \<and> 0 \<le> r \<and> r \<le> 10))
   \<and> (vals \<noteq> [] \<and> (\<forall>v \<in> set vals. nan_to_num v = c)
        \<longrightarrow> normalize_to_ten vals invert = replicate (length vals) (Finite 5))
   \<and> normalize_to_ten [] invert = []
   \<and> normalize_to_ten vals invert
       = normalize_to_ten (map (\<lambda>v. Finite (nan_to_num v)) vals) invert
   \<and> (vals \<noteq> []
        \<and> (\<forall>x \<in> set vals. \<forall>y \<in> set vals. nan_to_num x - nan_to_num y < float_overflow)
        \<and> \<not> isclose (Max (nan_to_num ` set vals)) (Min (nan_to_num ` set vals))
        \<longrightarrow> normalize_to_ten vals invert =
            map (\<lambda>v. let vmax = Max (nan_to_num ` set vals); vmin = Min (nan_to_num ` set vals);
                         normalized = (nan_to_num v - vmin) / (vmax - vmin)
                     in Finite (clip ((if invert then 1 - normalized else normalized) * 10) 0 10))
              vals)"
proof (intro conjI impI ballI)
  fix v
  assume "\<forall>x \<in> set vals. \<forall>y \<in> set vals. nan_to_num x - nan_to_num y < float_overflow"
    and "v \<in> set (normalize_to_ten vals invert)"
  then show "\<exists>r. v = Finite r \<and> 0 \<le> r \<and> r \<le> 10"
    by (rule normalize_range)
next
  assume "vals \<noteq> [] \<and> (\<forall>v \<in> set vals. nan_to_num v = c)"
  then have "vals \<noteq> []" and "\<forall>v \<in> set vals. nan_to_num v = c"
    by simp_all
  then show "normalize_to_ten vals invert = replicate (length vals) (Finite 5)"
    by (rule normalize_all_equal)
next
  show "normalize_to_ten [] invert = []"
    by (simp add: normalize_to_ten_def)
next
  show "normalize_to_ten vals invert
       = normalize_to_ten (map (\<lambda>v. Finite (nan_to_num v)) vals) invert"
    by (rule normalize_replaced)
next
  assume "vals \<noteq> []
        \<and> (\<forall>x \<in> set vals. \<forall>y \<in> set vals. nan_to_num x - nan_to_num y < float_overflow)
        \<and> \<not> isclose (Max (nan_to_num ` set vals)) (Min (nan_to_num ` set vals))"
  then show "normalize_to_ten vals invert =
            map (\<lambda>v. let vmax = Max (nan_to_num ` set vals); vmin = Min (nan_to_num ` set vals);
                         normalized = (nan_to_num v - vmin) / (vmax - vmin)
                     in Finite (clip ((if invert then 1 - normalized else normalized) * 10) 0 10))
              vals"
    by (intro normalize_no_overflow) simp_all
qed

text \<open>
  Three inputs: two equal values; an input of non-finite values and 0; and 2, NaN, 4,
  where the NaN enters the range as 0 and is the minimum.
\<close>

theorem normalize_to_ten_range_and_degenerate_witness:
  "normalize_to_ten [Finite 3, Finite 3] False = [Finite 5, Finite 5]
   \<and> normalize_to_ten [PosInf, NaN, Finite 0] True = [Finite 5, Finite 5, Finite 5]
   \<and> normalize_to_ten [Finite 2, NaN, Finite 4] False = [Finite 5, Finite 0, Finite 10]
   \<and> normalize_to_ten [Finite 2, NaN, Finite 4] True = [Finite 5, Finite 10, Finite 0]"
proof -
  have far: "\<not> isclose 4 0"
    using float_overflow_bounds by (simp add: isclose_def fsub_Finite)
  have span: "\<forall>x \<in> set [Finite 2, NaN, Finite 4]. \<forall>y \<in> set [Finite 2, NaN, Finite 4].
                nan_to_num x - nan_to_num y < float_overflow"
    using float_overflow_bounds by auto
  have e1: "normalize_to_ten [Finite 3, Finite 3] False = [Finite 5, Finite 5]"
    using normalize_to_ten_range_and_degenerate [of "[Finite 3, Finite 3]" False 3,
        THEN conjunct2, THEN conjunct1]
    by (simp add: numeral_2_eq_2)
  have e2: "normalize_to_ten [PosInf, NaN, Finite 0] True = [Finite 5, Finite 5, Finite 5]"
    using normalize_to_ten_range_and_degenerate [of "[PosInf, NaN, Finite 0]" True 0,
        THEN conjunct2, THEN conjunct1]
    by (simp add: numeral_3_eq_3)
  have e3: "normalize_to_ten [Finite 2, NaN, Finite 4] inv
              = [Finite (clip ((if inv then 1 - 2 / 4 else 2 / 4) * 10) 0 10),
                 Finite (clip ((if inv then 1 - 0 / 4 else 0 / 4) * 10) 0 10),
                 Finite (clip ((if inv then 1 - 4 / 4 else 4 / 4) * 10) 0 10)]" for inv
    using normalize_to_ten_range_and_degenerate [of "[Finite 2, NaN, Finite 4]" inv 0,
        THEN conjunct2, THEN conjunct2, THEN conjunct2, THEN conjunct2]
      far span
    by (simp add: Let_def)
  show ?thesis
    by (simp add: e1 e2 e3 clip_def)
qed

text \<open>
  A finite input \<open>h, -h, 0\<close> whose range \<open>2 h\<close> overflows to \<open>+inf\<close>, as the first
  difference does: \<open>inf / inf\<close> is NaN, and the other two elements are 0.
\<close>

lemma normalize_overflow:
  assumes "float_overflow \<le> 2 * h" "h < float_overflow"
  shows "normalize_to_ten [Finite h, Finite (- h), Finite 0] False = [NaN, Finite 0, Finite 0]"
proof -
  have pos: "0 < float_overflow"
    by (rule float_overflow_bounds)
  with assms have h: "0 < h"
    by linarith
  have big: "fsub (Finite h) (Finite (- h)) = PosInf"
    using assms by (simp add: fsub_def overflow_def)
  have mid: "fsub (Finite 0) (Finite (- h)) = Finite h"
    using assms h by (intro fsub_Finite [where a = 0 and b = "- h", simplified]) linarith+
  have low: "fsub (Finite (- h)) (Finite (- h)) = Finite 0"
    using pos by (simp add: fsub_Finite)
  have far: "\<not> isclose h (- h)"
    by (simp add: isclose_def big)
  have m: "Max {h, - h, 0} = h" "Min {h, - h, 0} = - h"
    using h by simp_all
  have z: "overflow 0 = Finite 0"
    using pos by (simp add: overflow_Finite)
  show ?thesis
    using h by (simp add: normalize_to_ten_def Let_def m far big mid low z clip_def)
qed

text \<open>
  The finite input \<open>1e308, -1e308, 0\<close>, of range \<open>2e308\<close>: the first output is NaN and
  is not in [0, 10].
\<close>

theorem normalize_to_ten_overflow_counterexample:
  "normalize_to_ten [Finite (10 ^ 308), Finite (- (10 ^ 308)), Finite 0] False
     = [NaN, Finite 0, Finite 0]"
  by (rule normalize_overflow) (simp_all add: float_overflow_def)

subsection \<open>Cost per person\<close>











lemma compute_scores_category_row:
  "i < n_rows gdf \<Longrightarrow>
   priority_category (compute_scores cfg gdf ! i)
     = categorize_float (thresholds cfg) (composite_scores cfg gdf ! i)"
  by (simp add: compute_scores_def Let_def)













section \<open>Properties of the Demand Forecast Engine\<close>

lemma map_zip_fst:
  "length xs = length ys \<Longrightarrow> map (\<lambda>x. f (fst x)) (zip xs ys) = map f xs"
  by (induction xs ys rule: list_induct2) auto

lemma length_demand_estimate_population:
  "length (demand_estimate_population cfg gdf) = length (rows gdf)"
  by (simp add: demand_estimate_population_def Let_def)

lemma status_from_need_cases:
  "(status_from_need s = ''none'' \<longleftrightarrow> s \<ge> 60)
   \<and> (status_from_need s = ''partial'' \<longleftrightarrow> 40 \<le> s \<and> s < 60)
   \<and> (status_from_need s = ''electrified'' \<longleftrightarrow> s < 40)"
  by (auto simp add: status_from_need_def)

lemma baseline_demand_status:
  assumes "has_column gdf ''energy_need_score''"
  shows "\<exists>out. baseline_demand cfg gdf = Inr out
           \<and> map electrification_status (rows out)
              = map (\<lambda>r. status_from_need (fillna 0 (energy_need_score r))) (rows gdf)"
proof -
  have "map (\<lambda>x. status_from_need (fillna 0 (energy_need_score (fst x))))
          (zip (rows gdf) (demand_estimate_population cfg gdf))
        = map (\<lambda>r. status_from_need (fillna 0 (energy_need_score r))) (rows gdf)"
    by (rule map_zip_fst) (simp add: length_demand_estimate_population)
  with assms show ?thesis
    by (simp add: baseline_demand_def Let_def case_prod_unfold o_def)
qed

text \<open>
  Claim C1, amended. In a dataset that has an \<open>energy_need_score\<close> column, the
  \<open>electrification_status\<close> of every cluster record is derived from that record's
  \<open>energy_need_score\<close> alone (a missing or unparsable value read as 0): "none" when the
  score is at least 60, "partial" when it is at least 40 and below 60, "electrified"
  when it is below 40, whatever the record's \<open>recommended_solution\<close> and
  \<open>priority_score\<close>. As stated, with \<open>priority_score\<close> in place of
  \<open>energy_need_score\<close>, the claim fails: the status never reads \<open>priority_score\<close>.
\<close>

theorem electrification_status_from_need:
  assumes "has_column gdf ''energy_need_score''"
  shows "\<exists>out. baseline_demand cfg gdf = Inr out
           \<and> length (rows out) = length (rows gdf)
           \<and> (\<forall>i < length (rows gdf).
                 let need = fillna 0 (energy_need_score (rows gdf ! i));
                     status = electrification_status (rows out ! i)
                 in (status = ''none'' \<longleftrightarrow> need \<ge> 60)
                    \<and> (status = ''partial'' \<longleftrightarrow> 40 \<le> need \<and> need < 60)
                    \<and> (status = ''electrified'' \<longleftrightarrow> need < 40))"
proof -
  from baseline_demand_status [OF assms, of cfg] obtain out where
    out: "baseline_demand cfg gdf = Inr out"
    and st: "map electrification_status (rows out)
              = map (\<lambda>r. status_from_need (fillna 0 (energy_need_score r))) (rows gdf)"
    by blast
  from st have len: "length (rows out) = length (rows gdf)"
    by (metis length_map)
  have "electrification_status (rows out ! i)
          = status_from_need (fillna 0 (energy_need_score (rows gdf ! i)))"
    if "i < length (rows gdf)" for i
  proof -
    have "map electrification_status (rows out) ! i
          = map (\<lambda>r. status_from_need (fillna 0 (energy_need_score r))) (rows gdf) ! i"
      by (simp only: st)
    with that len show ?thesis by simp
  qed
  with out len show ?thesis
    by (simp add: Let_def status_from_need_cases)
qed

theorem electrification_status_from_need_witness:
  "\<exists>out. baseline_demand example_demand_config need_example = Inr out
         \<and> electrification_status (rows out ! 0) = ''electrified''
         \<and> electrification_status (rows out ! 1) = ''none''"
proof -
  have h: "has_column need_example ''energy_need_score''"
    by (simp add: has_column_def need_example_def)
  from electrification_status_from_need [OF h, of example_demand_config]
  obtain out where out: "baseline_demand example_demand_config need_example = Inr out"
    and st: "\<forall>i < length (rows need_example).
                 let need = fillna 0 (energy_need_score (rows need_example ! i));
                     status = electrification_status (rows out ! i)
                 in (status = ''none'' \<longleftrightarrow> need \<ge> 60)
                    \<and> (status = ''partial'' \<longleftrightarrow> 40 \<le> need \<and> need < 60)
                    \<and> (status = ''electrified'' \<longleftrightarrow> need < 40)"
    by blast
  have "0 < length (rows need_example)" "1 < length (rows need_example)"
    by (simp_all add: need_example_def)
  with st have "electrification_status (rows out ! 0) = ''electrified''"
    "electrification_status (rows out ! 1) = ''none''"
    by (simp_all add: Let_def need_example_def blank_cluster_def fillna_def)
  with out show ?thesis by blast
qed

text \<open>
  The record with \<open>priority_score\<close> 70 is "electrified" (the claim as stated says "none")
  and the record with \<open>priority_score\<close> 7.5 is "none" (the claim says "electrified").
\<close>

theorem electrification_status_priority_counterexample:
  "map priority_score (rows need_example) = [70, 7.5]
   \<and> (case baseline_demand example_demand_config need_example of
         Inl e \<Rightarrow> [] | Inr out \<Rightarrow> map electrification_status (rows out))
       = [''electrified'', ''none'']"
  by (simp add: need_example_def blank_cluster_def baseline_demand_def has_column_def Let_def
      demand_estimate_population_def fillna_def status_from_need_def)









section \<open>Properties of the Scenario Engine\<close>

subsection \<open>Impact metrics\<close>

text \<open>
  Claim C2. The claim asks the impact metrics to be defined and finite, with nothing
  raised, on a dataset of zero records. The code does not do that: with no scenario
  record, \<open>calculate_impacts\<close> raises ZeroDivisionError at the electrification rate,
  whatever the baseline, and so does \<open>run\<close> on an empty demand output with a scenario
  of no interventions.
\<close>

theorem calculate_impacts_empty_raises:
  "calculate_impacts baseline (scenario\<lparr>rows := []\<rparr>) = Inl ZeroDivisionError
   \<and> fst (run st (demand_output\<lparr>rows := []\<rparr>)
           [\<lparr>name = n, description = d, interventions = []\<rparr>]) = Inl ZeroDivisionError"
  by (simp add: calculate_impacts_def Let_def run_def run_scenario_def copy_def nth_append)

text \<open>
  Claim C8. For every baseline and every scenario result on which \<open>calculate_impacts\<close>
  returns (it returns for every scenario with at least one record), \<open>people_electrified\<close>
  is the baseline's unelectrified population minus the scenario's, floored at 0, and
  \<open>settlements_connected\<close> is the difference of the two counts of "none" records,
  floored at 0; neither is ever negative.
\<close>

theorem impacts_floored_at_zero:
  "(rows scenario \<noteq> [] \<longrightarrow> (\<exists>m. calculate_impacts baseline scenario = Inr m))
   \<and> (\<forall>m. calculate_impacts baseline scenario = Inr m \<longrightarrow>
          people_electrified m
            = max (sum_list (map estimated_population
                     (filter (\<lambda>r. electrification_status r = ''none'') (rows baseline)))
                   - sum_list (map estimated_population
                       (filter (\<lambda>r. electrification_status r = ''none'') (rows scenario)))) 0
        \<and> settlements_connected m
            = of_int (max (int (length (filter (\<lambda>r. electrification_status r = ''none'')
                                         (rows baseline)))
                           - int (length (filter (\<lambda>r. electrification_status r = ''none'')
                                           (rows scenario)))) 0)
        \<and> 0 \<le> people_electrified m \<and> 0 \<le> settlements_connected m)"
  by (auto simp add: calculate_impacts_def Let_def split: if_splits)

lemma grown_example_effect:
  "intervention_effect population_growth_default scenario_example = Inr grown_example"
  by (simp add: intervention_effect_def population_growth_default_def get_or_def Let_def
      grown_example_def scenario_example_def example_cluster_def blank_cluster_def
      add_column_def has_column_def)

lemma example_unelectrified:
  "filter (\<lambda>r. electrification_status r = ''none'') (rows scenario_example)
     = [example_cluster 80 2 ''none'']"
  "filter (\<lambda>r. electrification_status r = ''none'') (rows grown_example)
     = [(example_cluster 80 2 ''none'')\<lparr>estimated_population := 1100,
          baseline_demand_mwh_year := 110, scenario_tag := Some ''population_growth''\<rparr>]"
  by (simp_all add: grown_example_def scenario_example_def example_cluster_def blank_cluster_def)

text \<open>
  Population growth leaves the unelectrified cluster unelectrified and raises its
  population from 1000 to 1100: the difference is negative and both metrics are 0.
\<close>

theorem impacts_floored_at_zero_witness:
  "\<exists>m. calculate_impacts scenario_example grown_example = Inr m
       \<and> people_electrified m = 0 \<and> settlements_connected m = 0"
proof -
  have ne: "rows grown_example \<noteq> []"
    by (simp add: grown_example_def scenario_example_def)
  from impacts_floored_at_zero [of grown_example scenario_example] ne
  obtain m where m: "calculate_impacts scenario_example grown_example = Inr m"
    by blast
  with impacts_floored_at_zero [of grown_example scenario_example]
  have "people_electrified m = 0 \<and> settlements_connected m = 0"
    by (simp add: example_unelectrified example_cluster_def blank_cluster_def)
  with m show ?thesis by blast
qed

subsection \<open>The store: what \<^verbatim>\<open>apply_intervention\<close> and \<^verbatim>\<open>run\<close> write\<close>

text \<open>
  Each step only extends the store: every frame that exists before the step is the same
  after it, and a returned address is allocated.
\<close>

lemma apply_intervention_frame:
  "length st \<le> length (snd (apply_intervention st data iv))
   \<and> (\<forall>a < length st. snd (apply_intervention st data iv) ! a = st ! a)
   \<and> (\<forall>r. fst (apply_intervention st data iv) = Inr r
          \<longrightarrow> r < length (snd (apply_intervention st data iv)))"
  by (auto simp add: apply_intervention_def copy_def Let_def nth_append split: sum.splits)

lemma apply_interventions_frame:
  "data < length st \<Longrightarrow>
   length st \<le> length (snd (apply_interventions st data ivs))
   \<and> (\<forall>a < length st. snd (apply_interventions st data ivs) ! a = st ! a)
   \<and> (\<forall>r. fst (apply_interventions st data ivs) = Inr r
          \<longrightarrow> r < length (snd (apply_interventions st data ivs)))"
proof (induction ivs arbitrary: st data)
  case Nil
  then show ?case by simp
next
  case (Cons iv ivs)
  obtain res st' where step: "apply_intervention st data iv = (res, st')"
    by (cases "apply_intervention st data iv")
  from apply_intervention_frame [of st data iv] step
  have fr: "length st \<le> length st'" "\<forall>a < length st. st' ! a = st ! a"
    "\<forall>r. res = Inr r \<longrightarrow> r < length st'"
    by simp_all
  show ?case
  proof (cases res)
    case (Inl e)
    with step fr show ?thesis by simp
  next
    case (Inr d)
    with fr have "d < length st'" by simp
    from Cons.IH [OF this] step Inr fr show ?thesis
      by auto
  qed
qed

lemma run_scenario_frame:
  assumes "baseline < length st"
  shows "length st \<le> length (snd (run_scenario st baseline defn))
   \<and> (\<forall>a < length st. snd (run_scenario st baseline defn) ! a = st ! a)"
proof -
  let ?st1 = "st @ [st ! baseline]"
  have c: "copy st baseline = (length st, ?st1)"
    by (simp add: copy_def)
  have d: "length st < length ?st1"
    by simp
  from apply_interventions_frame [OF d, of "interventions defn"]
  have fr: "length ?st1 \<le> length (snd (apply_interventions ?st1 (length st) (interventions defn)))"
    "\<forall>a < length ?st1.
        snd (apply_interventions ?st1 (length st) (interventions defn)) ! a = ?st1 ! a"
    by blast+
  have snd_eq: "snd (run_scenario st baseline defn)
          = snd (apply_interventions ?st1 (length st) (interventions defn))"
    by (simp add: run_scenario_def c split: prod.splits sum.splits)
  show ?thesis
    unfolding snd_eq using fr by (auto simp add: nth_append)
qed

lemma run_scenarios_frame:
  "baseline < length st \<Longrightarrow>
   length st \<le> length (snd (run_scenarios st baseline defns))
   \<and> (\<forall>a < length st. snd (run_scenarios st baseline defns) ! a = st ! a)"
proof (induction defns arbitrary: st)
  case Nil
  then show ?case by simp
next
  case (Cons defn defns)
  obtain res st' where step: "run_scenario st baseline defn = (res, st')"
    by (cases "run_scenario st baseline defn")
  from run_scenario_frame [OF Cons.prems, of defn] step
  have fr: "length st \<le> length st'" "\<forall>a < length st. st' ! a = st ! a"
    by simp_all
  with Cons.prems have b: "baseline < length st'"
    by simp
  show ?case
  proof (cases res)
    case (Inl e)
    with step fr show ?thesis by simp
  next
    case (Inr row)
    from Cons.IH [OF b] fr step Inr show ?thesis
      by (auto split: prod.splits sum.splits)
  qed
qed

lemma grid_effect:
  "intervention_effect grid_extension_top1 scenario_example =
     Inr (scenario_example\<lparr>
       optional_columns := [''dist_to_power_km'', ''estimated_cost_usd'', ''scenario_tag''],
       rows :=
       [(example_cluster 80 2 ''none'')\<lparr>electrification_status := ''electrified'',
           recommended_solution := ''grid_extension'', baseline_demand_mwh_year := 150,
           scenario_tag := Some ''grid_extension''\<rparr>,
        example_cluster 50 10 ''partial'', example_cluster 20 40 ''electrified'']\<rparr>)"
  by (simp add: intervention_effect_def grid_extension_top1_def get_or_def Let_def
      scenario_example_def nlargest_def indexed_def loc_update_def example_cluster_def
      blank_cluster_def add_column_def has_column_def)

text \<open>
  On the same clusters with no rows the grid extension raises ValueError, and so does a
  run of the scenario.
\<close>

lemma grid_extension_empty_raises:
  "intervention_effect grid_extension_top1 empty_example
     = Inl (ValueError ''cannot set a frame with no defined index and a scalar'')"
  "fst (run [] empty_example [grid_scenario])
     = Inl (ValueError ''cannot set a frame with no defined index and a scalar'')"
proof -
  show e: "intervention_effect grid_extension_top1 empty_example
     = Inl (ValueError ''cannot set a frame with no defined index and a scalar'')"
    by (simp add: intervention_effect_def grid_extension_top1_def get_or_def Let_def
        empty_example_def scenario_example_def has_column_def)
  show "fst (run [] empty_example [grid_scenario])
     = Inl (ValueError ''cannot set a frame with no defined index and a scalar'')"
    by (simp add: run_def run_scenario_def grid_scenario_def copy_def apply_intervention_def e)
qed

lemma grid_run_store:
  "snd (run [] scenario_example [grid_scenario]) =
     [scenario_example, scenario_example,
      scenario_example\<lparr>
       optional_columns := [''dist_to_power_km'', ''estimated_cost_usd'', ''scenario_tag''],
       rows :=
       [(example_cluster 80 2 ''none'')\<lparr>electrification_status := ''electrified'',
           recommended_solution := ''grid_extension'', baseline_demand_mwh_year := 150,
           scenario_tag := Some ''grid_extension''\<rparr>,
        example_cluster 50 10 ''partial'', example_cluster 20 40 ''electrified'']\<rparr>]"
  by (simp add: run_def run_scenario_def grid_scenario_def copy_def apply_intervention_def
      grid_effect split: prod.splits sum.splits)

text \<open>
  Claim C9. The baseline is never mutated by the Scenario Engine: for every store, every
  demand output loaded as the baseline and every list of scenario definitions, after
  \<open>run\<close> has applied all the scenarios' interventions (or has stopped at an exception)
  the frame at the baseline's address is the frame that was loaded, field for field.
  Every scenario and every intervention writes to a copy it has allocated.
\<close>

theorem baseline_never_mutated:
  "snd (run st demand_output defns) ! length st = demand_output"
proof -
  have "length st < length (st @ [demand_output])"
    by simp
  from run_scenarios_frame [OF this, of defns]
  show ?thesis
    by (simp add: run_def Let_def)
qed

text \<open>
  The grid-extension scenario on the three clusters: the baseline at address 0 is as
  loaded, while the frame at address 2, the scenario's result, has its first cluster
  electrified.
\<close>

theorem baseline_never_mutated_witness:
  "snd (run [] scenario_example [grid_scenario]) ! 0 = scenario_example
   \<and> map electrification_status (rows (snd (run [] scenario_example [grid_scenario]) ! 2))
       = [''electrified'', ''partial'', ''electrified'']
   \<and> map electrification_status (rows scenario_example) = [''none'', ''partial'', ''electrified'']"
  using baseline_never_mutated [of "[]" scenario_example "[grid_scenario]"]
  by (simp add: grid_run_store) (simp add: scenario_example_def example_cluster_def blank_cluster_def)

text \<open>
  Claim C10. For every intervention whose type tag is none of \<open>grid_extension\<close>,
  \<open>mini_grid_deployment\<close>, \<open>population_growth\<close>, \<open>demand_increase\<close> and
  \<open>solar_capacity_addition\<close> (a missing tag included), \<open>apply_intervention\<close> does not
  raise and returns a new frame identical to its input: no branch writes to the copy, so
  no field changes and no \<open>scenario_tag\<close> is set.
\<close>

theorem unknown_intervention_is_copy:
  assumes "iv_type iv \<notin> {Some ''grid_extension'', Some ''mini_grid_deployment'',
             Some ''population_growth'', Some ''demand_increase'', Some ''solar_capacity_addition''}"
  shows "intervention_effect iv df = Inr df
         \<and> apply_intervention st data iv = (Inr (length st), st @ [st ! data])
         \<and> snd (apply_intervention st data iv) ! length st = st ! data"
proof -
  from assms have e: "intervention_effect iv df = Inr df" for df
    by (simp add: intervention_effect_def Let_def)
  then show ?thesis
    by (simp add: apply_intervention_def copy_def)
qed

theorem unknown_intervention_is_copy_witness:
  "apply_intervention [scenario_example] 0 unknown_intervention
     = (Inr 1, [scenario_example, scenario_example])
   \<and> apply_intervention [scenario_example] 0 (unknown_intervention\<lparr>iv_type := None\<rparr>)
     = (Inr 1, [scenario_example, scenario_example])"
  using unknown_intervention_is_copy [of unknown_intervention scenario_example "[scenario_example]" 0]
    unknown_intervention_is_copy [of "unknown_intervention\<lparr>iv_type := None\<rparr>" scenario_example
      "[scenario_example]" 0]
  by (simp add: unknown_intervention_def)

end
